theory Spec2Isabelle
  imports Main
begin

section \<open>Padding policy and metadata lifecycle of \<open>mutagen/_tags.py\<close>\<close>

subsection \<open>Errors\<close>

text \<open>
  The module raises two kinds of Python exception: \<open>ValueError\<close>, with the message
  \<open>"Invalid padding"\<close> or \<open>"Invalid filesize"\<close>, in \<open>PaddingInfo.__init__\<close>, and
  \<open>NotImplementedError\<close> in the three abstract methods of \<open>Metadata\<close>. The specification
  calls them \<open>InvalidPadding\<close>, \<open>InvalidFilesize\<close> and \<open>NotImplemented\<close>.
\<close>

datatype py_error = ValueError string | NotImplementedError

abbreviation InvalidPadding :: py_error where
  "InvalidPadding \<equiv> ValueError ''Invalid padding''"

abbreviation InvalidFilesize :: py_error where
  "InvalidFilesize \<equiv> ValueError ''Invalid filesize''"

subsection \<open>\<open>PaddingInfo\<close>\<close>

text \<open>
  The two instance attributes of \<open>PaddingInfo\<close>. Python integers are unbounded, so both
  are \<open>int\<close>. The attribute \<open>size\<close> is named \<open>size_attr\<close> here, since \<open>size\<close> is a
  constant of HOL.
\<close>

record PaddingInfo =
  padding :: int
  size_attr :: int

text \<open>
  \<open>PaddingInfo.__init__(self, padding, filesize)\<close>: the attribute \<open>padding\<close> is stored
  first, then \<open>filesize\<close> is examined in the order of the source's \<open>if\<close>/\<open>elif\<close>/\<open>else\<close>.
  A raise leaves no object behind, so it is the left summand.
\<close>

definition PaddingInfo_init :: "int \<Rightarrow> int \<Rightarrow> py_error + PaddingInfo" where
  "PaddingInfo_init pad filesize =
     (if filesize \<ge> 0 then
        (let sz = filesize - pad in
         if sz < 0 then Inl (ValueError ''Invalid padding'')
         else Inr \<lparr>padding = pad, size_attr = sz\<rparr>)
      else if filesize = - 1 then Inr \<lparr>padding = pad, size_attr = - 1\<rparr>
      else Inl (ValueError ''Invalid filesize''))"

text \<open>
  The local variables \<open>high\<close> and \<open>low\<close> of \<open>get_default_padding\<close> as they stand after
  the first \<open>if\<close> of the method. Python's \<open>//\<close> rounds towards minus infinity, as \<open>div\<close>
  on \<open>int\<close> does.
\<close>

definition thresholds :: "PaddingInfo \<Rightarrow> int \<times> int" where
  "thresholds self =
     (let high = 1024 * 5; low = 1024 in
      if size_attr self \<noteq> - 1
      then (high + size_attr self div 40, low + size_attr self div 200)
      else (high, low))"

definition get_default_padding :: "PaddingInfo \<Rightarrow> int" where
  "get_default_padding self =
     (case thresholds self of (high, low) \<Rightarrow>
        if padding self \<ge> 0 then
          (if padding self > high then low else padding self)
        else low)"

text \<open>
  \<open>PaddingInfo._get_padding(self, user_func)\<close>: Python's \<open>None\<close> is \<open>None\<close>, a callback
  is \<open>Some f\<close>. (An Isabelle name cannot begin with an underscore.)
\<close>

definition get_padding :: "PaddingInfo \<Rightarrow> (PaddingInfo \<Rightarrow> int) option \<Rightarrow> int" where
  "get_padding self user_func =
     (case user_func of
        None \<Rightarrow> get_default_padding self
      | Some f \<Rightarrow> f self)"

subsection \<open>\<open>Metadata\<close>\<close>

text \<open>
  A method of \<open>Metadata\<close> takes the object \<open>self\<close> (of any type \<open>'s\<close>: the base class
  stores nothing in it) and returns the object as the call leaves it, together with the
  outcome: \<open>Inl\<close> an exception, \<open>Inr ()\<close> a normal return. Positional arguments are a
  list, keyword arguments an association list; \<open>filename=None\<close> is an option.
\<close>

type_synonym ('s, 'v) py_method = "'s \<Rightarrow> 'v list \<Rightarrow> (string \<times> 'v) list \<Rightarrow> 's \<times> (py_error + unit)"

definition Metadata_load :: "('s, 'v) py_method" where
  "Metadata_load self args kwargs = (self, Inl NotImplementedError)"

definition Metadata_save :: "'s \<Rightarrow> 'v option \<Rightarrow> 's \<times> (py_error + unit)" where
  "Metadata_save self filename = (self, Inl NotImplementedError)"

definition Metadata_delete :: "'s \<Rightarrow> 'v option \<Rightarrow> 's \<times> (py_error + unit)" where
  "Metadata_delete self filename = (self, Inl NotImplementedError)"

text \<open>
  \<open>Metadata.__init__(self, *args, **kwargs)\<close>. The call \<open>self.load\<close> is dispatched on the
  class of \<open>self\<close>, so the method that runs is a parameter; for the bare class it is
  \<open>Metadata_load\<close>. A tuple or a dict is true in Python when it is not empty.
\<close>

definition Metadata_init :: "('s, 'v) py_method \<Rightarrow> ('s, 'v) py_method" where
  "Metadata_init load self args kwargs =
     (if args \<noteq> [] \<or> kwargs \<noteq> [] then load self args kwargs
      else (self, Inr ()))"

subsection \<open>The specification's reading of the thresholds\<close>

text \<open>
  The specification describes the division in the heuristic as truncating towards zero.
  \<open>trunc_div\<close> is that division, and \<open>spec_high\<close> and \<open>spec_low\<close> are the thresholds as
  the specification words them; they are compared with \<open>thresholds\<close> below.
\<close>

definition trunc_div :: "int \<Rightarrow> int \<Rightarrow> int" where
  "trunc_div a b =
     (if (a < 0) = (b < 0) then \<bar>a\<bar> div \<bar>b\<bar> else - (\<bar>a\<bar> div \<bar>b\<bar>))"

definition spec_high :: "PaddingInfo \<Rightarrow> int" where
  "spec_high d = (if size_attr d \<noteq> - 1 then 5120 + trunc_div (size_attr d) 40 else 5120)"

definition spec_low :: "PaddingInfo \<Rightarrow> int" where
  "spec_low d = (if size_attr d \<noteq> - 1 then 1024 + trunc_div (size_attr d) 200 else 1024)"

section \<open>Construction\<close>

lemma PaddingInfo_init_Inr_iff:
  "PaddingInfo_init p f = Inr d \<longleftrightarrow>
     (0 \<le> f \<and> p \<le> f \<and> d = \<lparr>padding = p, size_attr = f - p\<rparr>) \<or>
     (f = - 1 \<and> d = \<lparr>padding = p, size_attr = - 1\<rparr>)"
  by (auto simp: PaddingInfo_init_def Let_def)

text \<open>
  Claim C1. For every integer padding and every filesize that is at least 0, construction
  succeeds exactly when \<open>filesize - padding\<close> is at least 0; on success the object stores
  the padding and the size \<open>filesize - padding\<close>; and when \<open>filesize - padding\<close> is
  negative, construction raises \<open>ValueError("Invalid padding")\<close> and yields no object.
\<close>

theorem construction_validity:
  assumes "0 \<le> filesize"
  shows "((\<exists>d. PaddingInfo_init pad filesize = Inr d) \<longleftrightarrow> 0 \<le> filesize - pad) \<and>
         (\<forall>d. PaddingInfo_init pad filesize = Inr d \<longrightarrow>
               size_attr d = filesize - pad \<and> padding d = pad) \<and>
         (filesize - pad < 0 \<longrightarrow> PaddingInfo_init pad filesize = Inl InvalidPadding)"
  using assms by (auto simp: PaddingInfo_init_def Let_def)

theorem construction_validity_witness:
  "PaddingInfo_init 30 100 = Inr \<lparr>padding = 30, size_attr = 70\<rparr> \<and>
   PaddingInfo_init 101 100 = Inl InvalidPadding"
proof -
  have ok: "(0::int) \<le> 100" by simp
  have "\<exists>d. PaddingInfo_init 30 100 = Inr d"
    using construction_validity [OF ok, of 30] by simp
  then obtain d where d: "PaddingInfo_init 30 100 = Inr d" ..
  with construction_validity [OF ok, of 30]
  have "size_attr d = 70" and "padding d = 30" by auto
  then have "d = \<lparr>padding = 30, size_attr = 70\<rparr>" by simp
  with d have first: "PaddingInfo_init 30 100 = Inr \<lparr>padding = 30, size_attr = 70\<rparr>"
    by simp
  have second: "PaddingInfo_init 101 100 = Inl InvalidPadding"
    using construction_validity [OF ok, of 101] by simp
  from first second show ?thesis by simp
qed

text \<open>
  Claim C6. For every integer padding, negative ones included, construction with
  filesize \<open>-1\<close> succeeds, and the object stores the padding and the size \<open>-1\<close>.
\<close>

theorem unknown_size_passthrough:
  "PaddingInfo_init pad (- 1) = Inr \<lparr>padding = pad, size_attr = - 1\<rparr>"
  by (simp add: PaddingInfo_init_def)

text \<open>
  Claim C7. Construction raises \<open>ValueError("Invalid filesize")\<close> exactly when the
  filesize is below \<open>-1\<close>, whatever the padding.
\<close>

theorem invalid_filesize_rejection:
  "PaddingInfo_init pad filesize = Inl InvalidFilesize \<longleftrightarrow> filesize < - 1"
  by (auto simp: PaddingInfo_init_def Let_def)

theorem invalid_filesize_rejection_witness:
  "PaddingInfo_init 7 (- 2) = Inl InvalidFilesize \<and>
   PaddingInfo_init 7 (- 1) \<noteq> Inl InvalidFilesize"
  using invalid_filesize_rejection [of 7 "- 2"] invalid_filesize_rejection [of 7 "- 1"]
  by simp

section \<open>The default heuristic\<close>

lemma constructed_size:
  "PaddingInfo_init p f = Inr d \<Longrightarrow> size_attr d = - 1 \<or> 0 \<le> size_attr d"
  by (auto simp: PaddingInfo_init_Inr_iff)

lemma trunc_div_nonneg: "0 \<le> a \<Longrightarrow> 0 < b \<Longrightarrow> trunc_div a b = a div b"
  by (simp add: trunc_div_def)

lemma thresholds_unknown:
  "size_attr d = - 1 \<Longrightarrow> thresholds d = (5120, 1024)"
  by (simp add: thresholds_def)

lemma thresholds_known:
  "0 \<le> size_attr d \<Longrightarrow>
     thresholds d = (5120 + size_attr d div 40, 1024 + size_attr d div 200)"
  by (auto simp: thresholds_def)

lemma thresholds_spec:
  "size_attr d = - 1 \<or> 0 \<le> size_attr d \<Longrightarrow> thresholds d = (spec_high d, spec_low d)"
  by (auto simp: thresholds_unknown thresholds_known spec_high_def spec_low_def
      trunc_div_nonneg)

lemma spec_low_floor:
  "size_attr d = - 1 \<or> 0 \<le> size_attr d \<Longrightarrow> 1024 \<le> spec_low d"
  by (auto simp: spec_low_def trunc_div_nonneg pos_imp_zdiv_nonneg_iff)

lemma get_default_padding_spec:
  assumes "size_attr d = - 1 \<or> 0 \<le> size_attr d"
  shows "get_default_padding d =
           (if 0 \<le> padding d \<and> padding d \<le> spec_high d then padding d else spec_low d)"
  using thresholds_spec [OF assms] by (auto simp: get_default_padding_def)

text \<open>
  Claim C2. For every successfully constructed object \<open>d\<close>, with \<open>high\<close> the
  specification's upper threshold (5120, plus \<open>size / 40\<close> by truncating division when
  the size is not \<open>-1\<close>): when \<open>0 \<le> padding \<le> high\<close>, \<open>get_default_padding\<close> returns the
  padding unchanged, and otherwise it returns a value that is at least 1024. The branch
  that keeps the padding has no floor: some constructed object on that branch gets a
  result below 1024.
\<close>

theorem default_padding_floor:
  assumes "PaddingInfo_init pad filesize = Inr d"
  shows "(0 \<le> padding d \<and> padding d \<le> spec_high d \<longrightarrow>
            get_default_padding d = padding d) \<and>
         (\<not> (0 \<le> padding d \<and> padding d \<le> spec_high d) \<longrightarrow>
            1024 \<le> get_default_padding d) \<and>
         (\<exists>p f e. PaddingInfo_init p f = Inr e \<and> 0 \<le> padding e \<and>
            padding e \<le> spec_high e \<and> get_default_padding e < 1024)"
proof -
  have valid: "size_attr d = - 1 \<or> 0 \<le> size_attr d"
    using assms by (rule constructed_size)
  have keep: "0 \<le> padding d \<and> padding d \<le> spec_high d \<longrightarrow>
      get_default_padding d = padding d"
    by (simp add: get_default_padding_spec [OF valid])
  have floor: "\<not> (0 \<le> padding d \<and> padding d \<le> spec_high d) \<longrightarrow>
      1024 \<le> get_default_padding d"
    using spec_low_floor [OF valid] by (simp add: get_default_padding_spec [OF valid])
  let ?e = "\<lparr>padding = 0, size_attr = - 1\<rparr>"
  have "PaddingInfo_init 0 (- 1) = Inr ?e \<and> 0 \<le> padding ?e \<and>
      padding ?e \<le> spec_high ?e \<and> get_default_padding ?e < 1024"
    by (simp add: PaddingInfo_init_def spec_high_def get_default_padding_def
        thresholds_def)
  then have below: "\<exists>p f e. PaddingInfo_init p f = Inr e \<and> 0 \<le> padding e \<and>
      padding e \<le> spec_high e \<and> get_default_padding e < 1024"
    by blast
  from keep floor below show ?thesis by blast
qed

theorem default_padding_floor_witness:
  "get_default_padding \<lparr>padding = 2000, size_attr = 98000\<rparr> = 2000 \<and>
   1024 \<le> get_default_padding \<lparr>padding = 8000, size_attr = 92000\<rparr> \<and>
   1024 \<le> get_default_padding \<lparr>padding = - 5, size_attr = - 1\<rparr>"
proof -
  have c1: "PaddingInfo_init 2000 100000 = Inr \<lparr>padding = 2000, size_attr = 98000\<rparr>"
    by (simp add: PaddingInfo_init_def)
  have c2: "PaddingInfo_init 8000 100000 = Inr \<lparr>padding = 8000, size_attr = 92000\<rparr>"
    by (simp add: PaddingInfo_init_def)
  have c3: "PaddingInfo_init (- 5) (- 1) = Inr \<lparr>padding = - 5, size_attr = - 1\<rparr>"
    by (simp add: PaddingInfo_init_def)
  have h1: "spec_high \<lparr>padding = 2000, size_attr = 98000\<rparr> = 7570"
    by (simp add: spec_high_def trunc_div_def)
  have h2: "spec_high \<lparr>padding = 8000, size_attr = 92000\<rparr> = 7420"
    by (simp add: spec_high_def trunc_div_def)
  have r1: "get_default_padding \<lparr>padding = 2000, size_attr = 98000\<rparr> = 2000"
    using default_padding_floor [OF c1] h1 by simp
  have r2: "1024 \<le> get_default_padding \<lparr>padding = 8000, size_attr = 92000\<rparr>"
    using default_padding_floor [OF c2] h2 by simp
  have r3: "1024 \<le> get_default_padding \<lparr>padding = - 5, size_attr = - 1\<rparr>"
    using default_padding_floor [OF c3] by simp
  from r1 r2 r3 show ?thesis by simp
qed

text \<open>
  Claim C4, as the code has it. The object constructed from padding 0 and filesize \<open>-1\<close>
  has the default padding 0: the padding is not negative and does not exceed the upper
  threshold 5120, so it is kept as it is.
\<close>

theorem default_padding_zero_unknown:
  "PaddingInfo_init 0 (- 1) = Inr \<lparr>padding = 0, size_attr = - 1\<rparr> \<and>
   get_default_padding \<lparr>padding = 0, size_attr = - 1\<rparr> = 0"
  by (simp add: PaddingInfo_init_def get_default_padding_def thresholds_def)

text \<open>
  Claim C4, as the specification states it (the default padding of that object is 1024),
  does not hold.
\<close>

theorem default_padding_zero_unknown_counterexample:
  "PaddingInfo_init 0 (- 1) = Inr \<lparr>padding = 0, size_attr = - 1\<rparr> \<and>
   get_default_padding \<lparr>padding = 0, size_attr = - 1\<rparr> \<noteq> 1024"
  by (simp add: PaddingInfo_init_def get_default_padding_def thresholds_def)

text \<open>
  Claim C5. For sizes \<open>0 \<le> s1 \<le> s2\<close> and any fixed padding, the lower threshold is
  \<open>1024 + s div 200\<close> and the upper threshold \<open>5120 + s div 40\<close>, both are non-decreasing
  from \<open>s1\<close> to \<open>s2\<close>, and for a negative padding the default padding is non-decreasing
  from \<open>s1\<close> to \<open>s2\<close>.
\<close>

theorem threshold_monotone:
  assumes "0 \<le> s1" and "s1 \<le> s2"
  shows "thresholds \<lparr>padding = pad, size_attr = s1\<rparr> = (5120 + s1 div 40, 1024 + s1 div 200) \<and>
         thresholds \<lparr>padding = pad, size_attr = s2\<rparr> = (5120 + s2 div 40, 1024 + s2 div 200) \<and>
         snd (thresholds \<lparr>padding = pad, size_attr = s1\<rparr>)
           \<le> snd (thresholds \<lparr>padding = pad, size_attr = s2\<rparr>) \<and>
         fst (thresholds \<lparr>padding = pad, size_attr = s1\<rparr>)
           \<le> fst (thresholds \<lparr>padding = pad, size_attr = s2\<rparr>) \<and>
         (pad < 0 \<longrightarrow>
            get_default_padding \<lparr>padding = pad, size_attr = s1\<rparr>
              \<le> get_default_padding \<lparr>padding = pad, size_attr = s2\<rparr>)"
proof -
  from assms have s2: "0 \<le> s2" by simp
  have t1: "thresholds \<lparr>padding = pad, size_attr = s1\<rparr> = (5120 + s1 div 40, 1024 + s1 div 200)"
    using assms(1) by (simp add: thresholds_known)
  have t2: "thresholds \<lparr>padding = pad, size_attr = s2\<rparr> = (5120 + s2 div 40, 1024 + s2 div 200)"
    using s2 by (simp add: thresholds_known)
  have high: "s1 div 40 \<le> s2 div 40"
    using assms(2) by (rule zdiv_mono1) simp
  have low: "s1 div 200 \<le> s2 div 200"
    using assms(2) by (rule zdiv_mono1) simp
  show ?thesis
    using high low by (simp add: t1 t2 get_default_padding_def)
qed

theorem threshold_monotone_witness:
  "thresholds \<lparr>padding = - 5, size_attr = 400\<rparr> = (5130, 1026) \<and>
   thresholds \<lparr>padding = - 5, size_attr = 92000\<rparr> = (7420, 1484) \<and>
   get_default_padding \<lparr>padding = - 5, size_attr = 400\<rparr>
     \<le> get_default_padding \<lparr>padding = - 5, size_attr = 92000\<rparr>"
proof -
  have a: "(0::int) \<le> 400" and b: "(400::int) \<le> 92000" by simp_all
  show ?thesis using threshold_monotone [OF a b, of "- 5"] by simp
qed

section \<open>The caller's override\<close>

text \<open>
  Claim C3. For every object \<open>d\<close>: without a callback, \<open>_get_padding\<close> returns the
  default padding of \<open>d\<close>; with a callback \<open>f\<close> it returns \<open>f d\<close> as it is, whatever the
  default padding would have been.
\<close>

theorem override_precedence:
  "get_padding d None = get_default_padding d \<and> get_padding d (Some f) = f d"
  by (simp add: get_padding_def)

theorem override_precedence_witness:
  "get_padding \<lparr>padding = 0, size_attr = - 1\<rparr> None = 0 \<and>
   get_padding \<lparr>padding = 0, size_attr = - 1\<rparr> (Some (\<lambda>info. padding info - 7)) = - 7"
  using override_precedence
    [of "\<lparr>padding = 0, size_attr = - 1\<rparr>" "\<lambda>info. padding info - 7"]
  by (simp add: get_default_padding_def thresholds_def)

section \<open>The size invariant\<close>

text \<open>
  Claim C10. Every successfully constructed object has size \<open>-1\<close> or a size that is at
  least 0. A negative padding with a filesize that is at least 0 does not raise
  \<open>ValueError("Invalid padding")\<close>: construction succeeds, with a size above the filesize.
  And whenever the guard \<open>size != -1\<close> of the two divisions in \<open>get_default_padding\<close>
  holds for a constructed object, the size that is divided is at least 0 (so that
  rounding down and truncating give the same thresholds).
\<close>

theorem size_invariant:
  "(PaddingInfo_init pad filesize = Inr d \<longrightarrow> size_attr d = - 1 \<or> 0 \<le> size_attr d) \<and>
   (pad < 0 \<and> 0 \<le> filesize \<longrightarrow>
      PaddingInfo_init pad filesize \<noteq> Inl InvalidPadding \<and>
      PaddingInfo_init pad filesize = Inr \<lparr>padding = pad, size_attr = filesize - pad\<rparr> \<and>
      filesize < filesize - pad) \<and>
   (PaddingInfo_init pad filesize = Inr d \<and> size_attr d \<noteq> - 1 \<longrightarrow>
      0 \<le> size_attr d \<and>
      thresholds d = (5120 + trunc_div (size_attr d) 40, 1024 + trunc_div (size_attr d) 200))"
proof -
  have inv: "PaddingInfo_init pad filesize = Inr d \<longrightarrow> size_attr d = - 1 \<or> 0 \<le> size_attr d"
    by (auto dest: constructed_size)
  have neg: "pad < 0 \<and> 0 \<le> filesize \<longrightarrow>
      PaddingInfo_init pad filesize \<noteq> Inl InvalidPadding \<and>
      PaddingInfo_init pad filesize = Inr \<lparr>padding = pad, size_attr = filesize - pad\<rparr> \<and>
      filesize < filesize - pad"
    by (auto simp: PaddingInfo_init_def Let_def)
  have dividend: "PaddingInfo_init pad filesize = Inr d \<and> size_attr d \<noteq> - 1 \<longrightarrow>
      0 \<le> size_attr d \<and>
      thresholds d = (5120 + trunc_div (size_attr d) 40, 1024 + trunc_div (size_attr d) 200)"
    using inv by (auto simp: thresholds_known trunc_div_nonneg)
  from inv neg dividend show ?thesis by blast
qed

theorem size_invariant_witness:
  "PaddingInfo_init (- 5) 10 = Inr \<lparr>padding = - 5, size_attr = 15\<rparr> \<and>
   PaddingInfo_init (- 5) 10 \<noteq> Inl InvalidPadding \<and>
   thresholds \<lparr>padding = - 5, size_attr = 15\<rparr> = (5120, 1024)"
proof -
  have c: "PaddingInfo_init (- 5) 10 = Inr \<lparr>padding = - 5, size_attr = 15\<rparr>"
    by (simp add: PaddingInfo_init_def)
  have t: "trunc_div 15 40 = 0 \<and> trunc_div 15 200 = 0"
    by (simp add: trunc_div_def)
  show ?thesis
    using size_invariant [of "- 5" 10 "\<lparr>padding = - 5, size_attr = 15\<rparr>"] c t by simp
qed

section \<open>The abstract lifecycle\<close>

text \<open>
  Claim C8. On the bare \<open>Metadata\<close> class, \<open>load\<close>, \<open>save\<close> and \<open>delete\<close> raise
  \<open>NotImplementedError\<close> for every object and every argument, and leave the object as it
  was.
\<close>

theorem abstract_lifecycle_failure:
  "Metadata_load self args kwargs = (self, Inl NotImplementedError) \<and>
   Metadata_save self filename = (self, Inl NotImplementedError) \<and>
   Metadata_delete self filename = (self, Inl NotImplementedError)"
  by (simp add: Metadata_load_def Metadata_save_def Metadata_delete_def)

text \<open>
  Claim C9. For every \<open>load\<close> method: construction with no arguments returns normally
  and leaves the object as it was, whatever \<open>load\<close> would have done; construction with
  some positional or keyword argument is the call of \<open>load\<close> on the same object with the
  same arguments; and so, on the bare class, construction with arguments raises
  \<open>NotImplementedError\<close>.
\<close>

theorem construct_and_load:
  "Metadata_init load self [] [] = (self, Inr ()) \<and>
   (args \<noteq> [] \<or> kwargs \<noteq> [] \<longrightarrow>
      Metadata_init load self args kwargs = load self args kwargs \<and>
      Metadata_init Metadata_load self args kwargs = (self, Inl NotImplementedError))"
  by (simp add: Metadata_init_def Metadata_load_def)

theorem construct_and_load_witness:
  "Metadata_init (\<lambda>calls a k. (calls @ [(a, k)], Inr ()))
     [] ([] :: int list) ([] :: (string \<times> int) list) = ([], Inr ()) \<and>
   Metadata_init (\<lambda>calls a k. (calls @ [(a, k)], Inr ())) [] [1::int] [(''x'', 2)]
     = ([([1], [(''x'', 2)])], Inr ()) \<and>
   Metadata_init Metadata_load [] [1::int] [(''x'', 2)]
     = ([] :: (int list \<times> (string \<times> int) list) list, Inl NotImplementedError)"
  using construct_and_load
    [of "\<lambda>calls a k. (calls @ [(a, k)], Inr ())" "[]" "[1::int]" "[(''x'', 2)]"]
  by simp

end
